theory Spec2Isabelle
  imports Main
begin

section \<open>Data model of \<open>lib/code-signing/private-key.ts\<close>\<close>

text \<open>
  The construct \<open>RsaPrivateKeySecret\<close> builds IAM policy statements, a Lambda-backed
  custom resource and its dependencies. Objects of the CDK are records; a method that
  mutates its receiver returns the updated record.
\<close>

datatype DeletionPolicy = Delete | Retain

datatype error = TypeError

text \<open>A principal of a policy statement (\<open>iam.PolicyPrincipal\<close>).\<close>

datatype PolicyPrincipal =
    ArnPrincipal string
  | AccountPrincipal string
  | ServicePrincipal string

text \<open>
  The value of a condition key: \<open>addCondition\<close> is called with a single string
  (lines 94, 97, 124, 167, 170, 176, 179) or with an array of strings (line 125).
\<close>

datatype ConditionValue = Str string | Arr "string list"

text \<open>
  \<open>iam.PolicyStatement\<close>: the builder methods used by the source append to these fields.
  A condition is kept as (operator, key, value), in call order.
\<close>

record PolicyStatement =
  sid :: "string option"
  actions :: "string list"
  resources :: "string list"
  principals :: "PolicyPrincipal list"
  conditions :: "(string \<times> string \<times> ConditionValue) list"

definition new_PolicyStatement :: PolicyStatement where
  "new_PolicyStatement =
     \<lparr>sid = None, actions = [], resources = [], principals = [], conditions = []\<rparr>"

definition describe :: "string \<Rightarrow> PolicyStatement \<Rightarrow> PolicyStatement" where
  "describe d s = s\<lparr>sid := Some d\<rparr>"

definition addAction :: "string \<Rightarrow> PolicyStatement \<Rightarrow> PolicyStatement" where
  "addAction a s = s\<lparr>actions := actions s @ [a]\<rparr>"

definition addActions :: "string list \<Rightarrow> PolicyStatement \<Rightarrow> PolicyStatement" where
  "addActions as s = s\<lparr>actions := actions s @ as\<rparr>"

definition addResource :: "string \<Rightarrow> PolicyStatement \<Rightarrow> PolicyStatement" where
  "addResource r s = s\<lparr>resources := resources s @ [r]\<rparr>"

definition addAllResources :: "PolicyStatement \<Rightarrow> PolicyStatement" where
  "addAllResources s = addResource ''*'' s"

definition addPrincipal :: "PolicyPrincipal \<Rightarrow> PolicyStatement \<Rightarrow> PolicyStatement" where
  "addPrincipal p s = s\<lparr>principals := principals s @ [p]\<rparr>"

definition addAwsPrincipal :: "string \<Rightarrow> PolicyStatement \<Rightarrow> PolicyStatement" where
  "addAwsPrincipal arn s = addPrincipal (ArnPrincipal arn) s"

definition addCondition ::
  "string \<Rightarrow> string \<Rightarrow> ConditionValue \<Rightarrow> PolicyStatement \<Rightarrow> PolicyStatement" where
  "addCondition oper k v s = s\<lparr>conditions := conditions s @ [(oper, k, v)]\<rparr>"

text \<open>
  \<open>kms.IEncryptionKey\<close>: its ARN and the statements of its resource policy.
\<close>

record IEncryptionKey =
  keyArn :: string
  resourcePolicy :: "PolicyStatement list"

definition addToResourcePolicy :: "PolicyStatement \<Rightarrow> IEncryptionKey \<Rightarrow> IEncryptionKey" where
  "addToResourcePolicy s k = k\<lparr>resourcePolicy := resourcePolicy k @ [s]\<rparr>"

text \<open>\<open>iam.IPrincipal\<close>: the grantee of \<open>grantGetSecretValue\<close>.\<close>

record IPrincipal =
  principal :: PolicyPrincipal
  policy :: "PolicyStatement list"

definition addToPolicy :: "PolicyStatement \<Rightarrow> IPrincipal \<Rightarrow> IPrincipal" where
  "addToPolicy s g = g\<lparr>policy := policy g @ [s]\<rparr>"

text \<open>\<open>RsaPrivateKeySecretProps\<close> (lines 10 to 42). \<open>keySize\<close> is a \<open>number\<close>.\<close>

record RsaPrivateKeySecretProps =
  keySize :: int
  secretName :: string
  description :: "string option"
  secretEncryptionKey :: "IEncryptionKey option"
  deletionPolicy :: "DeletionPolicy option"

text \<open>The execution role of the handler function; its statements are kept with the function.\<close>

record Role =
  roleArn :: string

text \<open>
  \<open>lambda.SingletonFunction\<close>, with the properties given at lines 64 to 72. \<open>code\<close> is the
  directory of the asset, as path segments. \<open>rolePolicy\<close> holds the statements added to
  the role through \<open>addToRolePolicy\<close>.
\<close>

record SingletonFunction =
  lambdaPurpose :: string
  uuid :: string
  fn_description :: string
  runtime :: string
  handler :: string
  code :: "string list"
  timeout :: nat
  functionName :: string
  role :: "Role option"
  rolePolicy :: "PolicyStatement list"

definition addToRolePolicy :: "PolicyStatement \<Rightarrow> SingletonFunction \<Rightarrow> SingletonFunction" where
  "addToRolePolicy s f =
     (case role f of None \<Rightarrow> f | Some r \<Rightarrow> f\<lparr>rolePolicy := rolePolicy f @ [s]\<rparr>)"

text \<open>\<open>iam.Policy\<close>: a policy object of its own, attached to the roles it names.\<close>

record Policy =
  policyId :: string
  roles :: "Role list"
  statements :: "PolicyStatement list"

text \<open>What \<open>node.addDependency\<close> is given at lines 113 and 117.\<close>

datatype IDependable = DepRole Role | DepPolicy Policy

text \<open>The \<open>properties\<close> of the custom resource (lines 104 to 110).\<close>

record Properties =
  resourceVersion :: string
  cr_description :: "string option"
  cr_keySize :: int
  cr_secretName :: string
  kmsKeyId :: "string option"

record CustomResource =
  lambdaProvider :: string
  resourceType :: string
  properties :: Properties
  dependencies :: "IDependable list"
  options_deletionPolicy :: "DeletionPolicy option"

definition addDependency :: "IDependable \<Rightarrow> CustomResource \<Rightarrow> CustomResource" where
  "addDependency d r = r\<lparr>dependencies := dependencies r @ [d]\<rparr>"

subsection \<open>The ambient stack and the values the CDK supplies\<close>

record Stack =
  stackPartition :: string
  region :: string
  accountId :: string

text \<open>
  What the constructor reads from outside: the stack found by \<open>cdk.Stack.find(this)\<close>,
  \<open>__dirname\<close> as path segments, \<open>hashFileOrDirectory\<close> of \<open>../util\<close> (taken as a
  parameter: a function from a path to the hash of what is stored there), and the strings
  the CDK gives for the function's name, its role's ARN and an attribute of the custom
  resource.
\<close>

record Env =
  stack :: Stack
  dirname :: "string list"
  hashFileOrDirectory :: "string list \<Rightarrow> string"
  functionNameToken :: string
  roleArnToken :: string
  getAtt :: "string \<Rightarrow> string"

text \<open>\<open>path.resolve\<close> on segments: \<open>..\<close> leaves the last directory, a name enters it.\<close>

fun path_resolve :: "string list \<Rightarrow> string list \<Rightarrow> string list" where
  "path_resolve p [] = p"
| "path_resolve p (seg # segs) =
     (if seg = ''..'' then path_resolve (butlast p) segs else path_resolve (p @ [seg]) segs)"

text \<open>
  \<open>Stack.formatArn\<close> with the components the source passes (line 74 to 80); the CDK joins
  them as \<open>arn:partition:service:region:account:resource\<close>, the separator and the
  resource name.
\<close>

record ArnComponents =
  service :: string
  resource :: string
  sep :: string
  resourceName :: string

definition formatArn :: "Stack \<Rightarrow> ArnComponents \<Rightarrow> string" where
  "formatArn st c =
     ''arn:'' @ stackPartition st @ '':'' @ service c @ '':'' @ region st @ '':'' @ accountId st
       @ '':'' @ resource c @ sep c @ resourceName c"

text \<open>
  \<open>new lambda.SingletonFunction(...)\<close> without a \<open>role\<close> property: the CDK creates the
  execution role with the function.
\<close>

definition new_SingletonFunction :: "Env \<Rightarrow> string list \<Rightarrow> SingletonFunction" where
  "new_SingletonFunction env codeLocation =
     \<lparr>lambdaPurpose = ''RSAPrivate-Key'',
      uuid = ''72FD327D-3813-4632-9340-28EC437AA486'',
      fn_description = ''Generates an RSA Private Key and stores it in AWS Secrets Manager'',
      runtime = ''nodejs8.10'',
      handler = ''index.handler'',
      code = codeLocation,
      timeout = 300,
      functionName = functionNameToken env,
      role = Some \<lparr>roleArn = roleArnToken env\<rparr>,
      rolePolicy = []\<rparr>"

section \<open>The constructor\<close>

text \<open>The endpoint named in the \<open>kms:ViaService\<close> conditions (lines 94, 124, 167, 176).\<close>

definition viaService :: "Stack \<Rightarrow> string" where
  "viaService st = ''secretsmanager.'' @ region st @ ''.amazonaws.com''"

text \<open>Lines 74 to 80.\<close>

definition secretArnLike_of :: "Stack \<Rightarrow> string \<Rightarrow> string" where
  "secretArnLike_of st name =
     formatArn st \<lparr>service = ''secretsmanager'', resource = ''secret'', sep = '':'',
                   resourceName = name @ ''-??????''\<rparr>"

text \<open>The statement of lines 81 to 85.\<close>

definition lifecycleStatement :: "string \<Rightarrow> PolicyStatement" where
  "lifecycleStatement arnLike =
     addResource arnLike
       (addActions [''secretsmanager:CreateSecret'', ''secretsmanager:DeleteSecret'',
                    ''secretsmanager:UpdateSecret'']
          new_PolicyStatement)"

text \<open>The statement of lines 88 to 98, added to the resource policy of the key.\<close>

definition keyResourceStatement :: "Stack \<Rightarrow> string \<Rightarrow> string \<Rightarrow> string \<Rightarrow> PolicyStatement" where
  "keyResourceStatement st fname rarn arnLike =
     addCondition ''ArnLike'' ''kms:EncryptionContext:SecretARN'' (Str arnLike)
       (addCondition ''StringEquals'' ''kms:ViaService'' (Str (viaService st))
          (addAllResources
             (addActions [''kms:Decrypt'', ''kms:GenerateDataKey'']
                (addAwsPrincipal rarn
                   (describe
                      (''Allow use via AWS Secrets Manager by CustomResource handler '' @ fname)
                      new_PolicyStatement)))))"

text \<open>\<open>/[^0-9A-Za-z]/\<close> of line 121: the characters that \<open>replace\<close> keeps.\<close>

definition alnum :: "char \<Rightarrow> bool" where
  "alnum c =
     (let n = (of_char c :: nat)
      in (48 \<le> n \<and> n \<le> 57) \<or> (65 \<le> n \<and> n \<le> 90) \<or> (97 \<le> n \<and> n \<le> 122))"

text \<open>The statement of lines 120 to 125, the only statement of the separate policy.\<close>

definition keyGrantStatement :: "Stack \<Rightarrow> string \<Rightarrow> string \<Rightarrow> string \<Rightarrow> PolicyStatement" where
  "keyGrantStatement st name karn arnLike =
     addCondition ''StringLike'' ''kms:EncryptionContext:SecretARN''
         (Arr [arnLike, ''RequestToValidateKeyAccess''])
       (addCondition ''StringEquals'' ''kms:ViaService'' (Str (viaService st))
          (addResource karn
             (addActions [''kms:Decrypt'', ''kms:GenerateDataKey'']
                (describe (''AWSSecretsManager'' @ filter alnum name @ ''CMK'')
                   new_PolicyStatement))))"

text \<open>The object built by the constructor: its fields and the constructs in its scope.\<close>

record RsaPrivateKeySecret =
  secretArn :: string
  secretArnLike :: string
  masterKey :: "IEncryptionKey option"
  customResource :: SingletonFunction
  privateKey :: CustomResource
  policies :: "Policy list"
  this_stack :: Stack

text \<open>
  Lines 73 to 134, for a handler function \<open>f\<close>. Line 90 reads \<open>customResource.role!.roleArn\<close>:
  with no role, reading \<open>roleArn\<close> of \<open>undefined\<close> throws a \<open>TypeError\<close>. The result is the
  \<open>props\<close> object as the constructor leaves it, with the new object. \<open>props.secretEncryptionKey\<close>
  and \<open>this.masterKey\<close> are one object, so both carry the statement added at line 88.
\<close>

definition construct ::
  "Env \<Rightarrow> string list \<Rightarrow> SingletonFunction \<Rightarrow> RsaPrivateKeySecretProps
     \<Rightarrow> error + (RsaPrivateKeySecretProps \<times> RsaPrivateKeySecret)" where
  "construct env codeLocation f props =
     (let st = stack env;
          arnLike = secretArnLike_of st (secretName props);
          f1 = addToRolePolicy (lifecycleStatement arnLike) f
      in case (case secretEncryptionKey props of
                 None \<Rightarrow> Inr None
               | Some k \<Rightarrow>
                   (case role f1 of
                      None \<Rightarrow> Inl TypeError
                    | Some r \<Rightarrow>
                        Inr (Some (addToResourcePolicy
                                     (keyResourceStatement st (functionName f1) (roleArn r) arnLike)
                                     k)))) of
           Inl e \<Rightarrow> Inl e
         | Inr key1 \<Rightarrow>
             (let pk0 = \<lparr>lambdaProvider = functionName f1,
                         resourceType = ''Custom::RsaPrivateKeySecret'',
                         properties =
                           \<lparr>resourceVersion = hashFileOrDirectory env codeLocation,
                            cr_description = description props,
                            cr_keySize = keySize props,
                            cr_secretName = secretName props,
                            kmsKeyId = map_option keyArn key1\<rparr>,
                         dependencies = [],
                         options_deletionPolicy = None\<rparr>;
                  (pk1, pols) =
                    (case role f1 of
                       None \<Rightarrow> (pk0, [])
                     | Some r \<Rightarrow>
                         (let pk = addDependency (DepRole r) pk0
                          in case key1 of
                               None \<Rightarrow> (pk, [])
                             | Some k \<Rightarrow>
                                 (let pol = \<lparr>policyId = ''GrantLambdaRoleKeyAccess'',
                                             roles = [r],
                                             statements =
                                               [keyGrantStatement st (secretName props)
                                                  (keyArn k) arnLike]\<rparr>
                                  in (addDependency (DepPolicy pol) pk, [pol]))));
                  pk2 = pk1\<lparr>options_deletionPolicy := deletionPolicy props\<rparr>
              in Inr (props\<lparr>secretEncryptionKey := key1\<rparr>,
                      \<lparr>secretArn = getAtt env ''SecretArn'',
                       secretArnLike = arnLike,
                       masterKey = key1,
                       customResource = f1,
                       privateKey = pk2,
                       policies = pols,
                       this_stack = st\<rparr>)))"

text \<open>Line 63: the directory of the handler's code, two levels above \<open>__dirname\<close>.\<close>

definition codeLocation_of :: "Env \<Rightarrow> string list" where
  "codeLocation_of env =
     path_resolve (dirname env)
       [''..'', ''..'', ''custom-resource-handlers'', ''bin'', ''private-key'']"

text \<open>
  The constructor (lines 58 to 134): the default of line 61 is written into \<open>props\<close>
  (every \<open>DeletionPolicy\<close> is a non-empty string, so \<open>||\<close> replaces only a missing one),
  the handler function is created (lines 63 to 72), and the rest follows.
\<close>

definition new_RsaPrivateKeySecret ::
  "Env \<Rightarrow> RsaPrivateKeySecretProps \<Rightarrow> error + (RsaPrivateKeySecretProps \<times> RsaPrivateKeySecret)"
  where
  "new_RsaPrivateKeySecret env props =
     (let props1 = props\<lparr>deletionPolicy :=
                      Some (case deletionPolicy props of None \<Rightarrow> Retain | Some d \<Rightarrow> d)\<rparr>;
          codeLocation = codeLocation_of env;
          f = new_SingletonFunction env codeLocation
      in construct env codeLocation f props1)"

section \<open>\<open>grantGetSecretValue\<close>\<close>

text \<open>The three statements of lines 159, 162 to 171 and 172 to 180.\<close>

definition getSecretValueStatement :: "string \<Rightarrow> PolicyStatement" where
  "getSecretValueStatement arn =
     addResource arn (addAction ''secretsmanager:GetSecretValue'' new_PolicyStatement)"

definition keyDecryptResourceStatement ::
  "Stack \<Rightarrow> PolicyPrincipal \<Rightarrow> string \<Rightarrow> PolicyStatement" where
  "keyDecryptResourceStatement st p arnLike =
     addCondition ''ArnLike'' ''kms:EncryptionContext:SecretARN'' (Str arnLike)
       (addCondition ''StringEquals'' ''kms:ViaService'' (Str (viaService st))
          (addPrincipal p
             (addAllResources
                (addAction ''kms:Decrypt'' new_PolicyStatement))))"

definition keyDecryptPrincipalStatement :: "Stack \<Rightarrow> string \<Rightarrow> string \<Rightarrow> PolicyStatement" where
  "keyDecryptPrincipalStatement st karn arn =
     addCondition ''ArnEquals'' ''kms:EncryptionContext:SecretARN'' (Str arn)
       (addCondition ''StringEquals'' ''kms:ViaService'' (Str (viaService st))
          (addResource karn
             (addAction ''kms:Decrypt'' new_PolicyStatement)))"

text \<open>Lines 158 to 182: the object and the grantee after the call.\<close>

definition grantGetSecretValue ::
  "RsaPrivateKeySecret \<Rightarrow> IPrincipal \<Rightarrow> RsaPrivateKeySecret \<times> IPrincipal" where
  "grantGetSecretValue this grantee =
     (let g1 = addToPolicy (getSecretValueStatement (secretArn this)) grantee
      in case masterKey this of
           None \<Rightarrow> (this, g1)
         | Some k \<Rightarrow>
             (let k1 = addToResourcePolicy
                         (keyDecryptResourceStatement (this_stack this) (principal g1)
                            (secretArnLike this))
                         k;
                  g2 = addToPolicy
                         (keyDecryptPrincipalStatement (this_stack this) (keyArn k1)
                            (secretArn this))
                         g1
              in (this\<lparr>masterKey := Some k1\<rparr>, g2)))"

section \<open>What the claims speak about\<close>

text \<open>The object a construction returns, if it returns one.\<close>

definition built ::
  "error + (RsaPrivateKeySecretProps \<times> RsaPrivateKeySecret) \<Rightarrow> RsaPrivateKeySecret option" where
  "built r = (case r of Inl e \<Rightarrow> None | Inr (p, this) \<Rightarrow> Some this)"

text \<open>
  The request to the provisioning backend: the properties of the custom resource, which
  the handler function receives. There is none when the constructor throws.
\<close>

definition dispatched ::
  "error + (RsaPrivateKeySecretProps \<times> RsaPrivateKeySecret) \<Rightarrow> Properties option" where
  "dispatched r = map_option (properties \<circ> privateKey) (built r)"

text \<open>
  The dependencies of the custom resource as edges: \<open>(a, b)\<close> says that \<open>a\<close> waits
  for \<open>b\<close>. Every dependency added at lines 113 and 117 starts at the custom resource.
\<close>

datatype node = SecretOp | RoleOp Role | KeyGrantOp Policy

fun node_of :: "IDependable \<Rightarrow> node" where
  "node_of (DepRole r) = RoleOp r"
| "node_of (DepPolicy p) = KeyGrantOp p"

definition dependencyEdges :: "RsaPrivateKeySecret \<Rightarrow> (node \<times> node) list" where
  "dependencyEdges this = map (Pair SecretOp \<circ> node_of) (dependencies (privateKey this))"

text \<open>
  What a list of (allowing) statements grants: a request is granted when one statement
  grants it, whatever decides that a single statement grants a request.
\<close>

definition policy_grants ::
  "(PolicyStatement \<Rightarrow> 'req \<Rightarrow> bool) \<Rightarrow> PolicyStatement list \<Rightarrow> 'req \<Rightarrow> bool" where
  "policy_grants allows pol req = list_ex (\<lambda>s. allows s req) pol"

text \<open>The resource policy of the key of the object, empty without a key.\<close>

definition keyPolicy :: "RsaPrivateKeySecret \<Rightarrow> PolicyStatement list" where
  "keyPolicy this = (case masterKey this of None \<Rightarrow> [] | Some k \<Rightarrow> resourcePolicy k)"

text \<open>The values a statement gives for the condition key \<open>kms:EncryptionContext:SecretARN\<close>.\<close>

definition secretRefValues :: "PolicyStatement \<Rightarrow> ConditionValue list" where
  "secretRefValues s =
     map (snd \<circ> snd)
       (filter (\<lambda>c. fst (snd c) = ''kms:EncryptionContext:SecretARN'') (conditions s))"

subsection \<open>Matching a resource pattern\<close>

text \<open>
  The wildcards of an IAM resource pattern: \<open>*\<close> stands for any sequence of characters,
  \<open>?\<close> for any single character, every other character for itself.
\<close>

fun glob_match :: "string \<Rightarrow> string \<Rightarrow> bool" where
  "glob_match [] [] = True"
| "glob_match [] (c # cs) = False"
| "glob_match (p # ps) [] = (p = CHR ''*'' \<and> glob_match ps [])"
| "glob_match (p # ps) (c # cs) =
     (if p = CHR ''*'' then glob_match ps (c # cs) \<or> glob_match (p # ps) cs
      else (p = CHR ''?'' \<or> p = c) \<and> glob_match ps cs)"

definition wildcard_free :: "string \<Rightarrow> bool" where
  "wildcard_free s = (CHR ''*'' \<notin> set s \<and> CHR ''?'' \<notin> set s)"

text \<open>
  An ARN of the secret \<open>name\<close> in the stack: the formatted ARN of \<open>name-\<close>, followed by
  exactly six more characters.
\<close>

definition secretArnForm :: "Stack \<Rightarrow> string \<Rightarrow> string \<Rightarrow> bool" where
  "secretArnForm st name a =
     (let p = formatArn st \<lparr>service = ''secretsmanager'', resource = ''secret'', sep = '':'',
                            resourceName = name @ ''-''\<rparr>
      in length a = length p + 6 \<and> take (length p) a = p)"

subsection \<open>A concrete stack, handler and specifications\<close>

definition ex_stack :: Stack where
  "ex_stack = \<lparr>stackPartition = ''aws'', region = ''us-east-1'', accountId = ''123456789012''\<rparr>"

definition ex_env :: Env where
  "ex_env =
     \<lparr>stack = ex_stack,
      dirname = [''app'', ''lib'', ''code-signing''],
      hashFileOrDirectory = (\<lambda>p. ''h1''),
      functionNameToken = ''fn'',
      roleArnToken = ''arn:aws:iam::123456789012:role/handler'',
      getAtt = (\<lambda>a. ''att-'' @ a)\<rparr>"

definition ex_key :: IEncryptionKey where
  "ex_key = \<lparr>keyArn = ''arn:aws:kms:us-east-1:123456789012:key/k1'', resourcePolicy = []\<rparr>"

definition ex_props :: RsaPrivateKeySecretProps where
  "ex_props =
     \<lparr>keySize = 2048, secretName = ''db-root'', description = None,
      secretEncryptionKey = None, deletionPolicy = None\<rparr>"

definition ex_props_key :: RsaPrivateKeySecretProps where
  "ex_props_key = ex_props\<lparr>secretEncryptionKey := Some ex_key\<rparr>"

definition ex_grantee :: IPrincipal where
  "ex_grantee =
     \<lparr>principal = ArnPrincipal ''arn:aws:iam::123456789012:role/reader'', policy = []\<rparr>"

section \<open>The result of the constructor and of the grant, written out\<close>

lemma new_no_key:
  assumes "secretEncryptionKey props = None"
  shows "new_RsaPrivateKeySecret env props =
    Inr (props\<lparr>deletionPolicy := Some (case deletionPolicy props of None \<Rightarrow> Retain | Some d \<Rightarrow> d)\<rparr>,
         \<lparr>secretArn = getAtt env ''SecretArn'',
          secretArnLike = secretArnLike_of (stack env) (secretName props),
          masterKey = None,
          customResource = (new_SingletonFunction env (codeLocation_of env))
             \<lparr>rolePolicy := [lifecycleStatement (secretArnLike_of (stack env) (secretName props))]\<rparr>,
          privateKey =
            \<lparr>lambdaProvider = functionNameToken env,
             resourceType = ''Custom::RsaPrivateKeySecret'',
             properties =
               \<lparr>resourceVersion = hashFileOrDirectory env (codeLocation_of env),
                cr_description = description props,
                cr_keySize = keySize props,
                cr_secretName = secretName props,
                kmsKeyId = None\<rparr>,
             dependencies = [DepRole \<lparr>roleArn = roleArnToken env\<rparr>],
             options_deletionPolicy =
               Some (case deletionPolicy props of None \<Rightarrow> Retain | Some d \<Rightarrow> d)\<rparr>,
          policies = [],
          this_stack = stack env\<rparr>)"
  using assms
  by (simp add: new_RsaPrivateKeySecret_def construct_def Let_def codeLocation_of_def
      new_SingletonFunction_def addToRolePolicy_def addDependency_def)

lemma new_with_key:
  assumes "secretEncryptionKey props = Some k"
  shows "new_RsaPrivateKeySecret env props =
    Inr (props\<lparr>deletionPolicy := Some (case deletionPolicy props of None \<Rightarrow> Retain | Some d \<Rightarrow> d),
               secretEncryptionKey := Some (k\<lparr>resourcePolicy := resourcePolicy k @
                 [keyResourceStatement (stack env) (functionNameToken env) (roleArnToken env)
                    (secretArnLike_of (stack env) (secretName props))]\<rparr>)\<rparr>,
         \<lparr>secretArn = getAtt env ''SecretArn'',
          secretArnLike = secretArnLike_of (stack env) (secretName props),
          masterKey = Some (k\<lparr>resourcePolicy := resourcePolicy k @
                 [keyResourceStatement (stack env) (functionNameToken env) (roleArnToken env)
                    (secretArnLike_of (stack env) (secretName props))]\<rparr>),
          customResource = (new_SingletonFunction env (codeLocation_of env))
             \<lparr>rolePolicy := [lifecycleStatement (secretArnLike_of (stack env) (secretName props))]\<rparr>,
          privateKey =
            \<lparr>lambdaProvider = functionNameToken env,
             resourceType = ''Custom::RsaPrivateKeySecret'',
             properties =
               \<lparr>resourceVersion = hashFileOrDirectory env (codeLocation_of env),
                cr_description = description props,
                cr_keySize = keySize props,
                cr_secretName = secretName props,
                kmsKeyId = Some (keyArn k)\<rparr>,
             dependencies = [DepRole \<lparr>roleArn = roleArnToken env\<rparr>,
                DepPolicy \<lparr>policyId = ''GrantLambdaRoleKeyAccess'',
                           roles = [\<lparr>roleArn = roleArnToken env\<rparr>],
                           statements = [keyGrantStatement (stack env) (secretName props) (keyArn k)
                              (secretArnLike_of (stack env) (secretName props))]\<rparr>],
             options_deletionPolicy =
               Some (case deletionPolicy props of None \<Rightarrow> Retain | Some d \<Rightarrow> d)\<rparr>,
          policies = [\<lparr>policyId = ''GrantLambdaRoleKeyAccess'',
                           roles = [\<lparr>roleArn = roleArnToken env\<rparr>],
                           statements = [keyGrantStatement (stack env) (secretName props) (keyArn k)
                              (secretArnLike_of (stack env) (secretName props))]\<rparr>],
          this_stack = stack env\<rparr>)"
  using assms
  by (simp add: new_RsaPrivateKeySecret_def construct_def Let_def codeLocation_of_def
      new_SingletonFunction_def addToRolePolicy_def addDependency_def addToResourcePolicy_def)

lemma lifecycleStatement_eq:
  "lifecycleStatement a =
     \<lparr>sid = None,
      actions = [''secretsmanager:CreateSecret'', ''secretsmanager:DeleteSecret'',
                 ''secretsmanager:UpdateSecret''],
      resources = [a], principals = [], conditions = []\<rparr>"
  by (simp add: lifecycleStatement_def new_PolicyStatement_def addActions_def addResource_def)

lemma keyResourceStatement_eq:
  "keyResourceStatement st fname rarn a =
     \<lparr>sid = Some (''Allow use via AWS Secrets Manager by CustomResource handler '' @ fname),
      actions = [''kms:Decrypt'', ''kms:GenerateDataKey''],
      resources = [''*''],
      principals = [ArnPrincipal rarn],
      conditions = [(''StringEquals'', ''kms:ViaService'', Str (viaService st)),
                    (''ArnLike'', ''kms:EncryptionContext:SecretARN'', Str a)]\<rparr>"
  by (simp add: keyResourceStatement_def new_PolicyStatement_def addActions_def addResource_def
      addAllResources_def addCondition_def addAwsPrincipal_def addPrincipal_def describe_def)

lemma keyGrantStatement_eq:
  "keyGrantStatement st name karn a =
     \<lparr>sid = Some (''AWSSecretsManager'' @ filter alnum name @ ''CMK''),
      actions = [''kms:Decrypt'', ''kms:GenerateDataKey''],
      resources = [karn],
      principals = [],
      conditions = [(''StringEquals'', ''kms:ViaService'', Str (viaService st)),
                    (''StringLike'', ''kms:EncryptionContext:SecretARN'',
                       Arr [a, ''RequestToValidateKeyAccess''])]\<rparr>"
  by (simp add: keyGrantStatement_def new_PolicyStatement_def addActions_def addResource_def
      addCondition_def describe_def)

lemma getSecretValueStatement_eq:
  "getSecretValueStatement a =
     \<lparr>sid = None, actions = [''secretsmanager:GetSecretValue''], resources = [a],
      principals = [], conditions = []\<rparr>"
  by (simp add: getSecretValueStatement_def new_PolicyStatement_def addAction_def addResource_def)

lemma keyDecryptResourceStatement_eq:
  "keyDecryptResourceStatement st p a =
     \<lparr>sid = None, actions = [''kms:Decrypt''], resources = [''*''], principals = [p],
      conditions = [(''StringEquals'', ''kms:ViaService'', Str (viaService st)),
                    (''ArnLike'', ''kms:EncryptionContext:SecretARN'', Str a)]\<rparr>"
  by (simp add: keyDecryptResourceStatement_def new_PolicyStatement_def addAction_def
      addResource_def addAllResources_def addCondition_def addPrincipal_def)

lemma keyDecryptPrincipalStatement_eq:
  "keyDecryptPrincipalStatement st karn a =
     \<lparr>sid = None, actions = [''kms:Decrypt''], resources = [karn], principals = [],
      conditions = [(''StringEquals'', ''kms:ViaService'', Str (viaService st)),
                    (''ArnEquals'', ''kms:EncryptionContext:SecretARN'', Str a)]\<rparr>"
  by (simp add: keyDecryptPrincipalStatement_def new_PolicyStatement_def addAction_def
      addResource_def addCondition_def)

lemma lifecycle_not_keyGrant: "lifecycleStatement b \<noteq> keyGrantStatement st name karn a"
proof
  assume "lifecycleStatement b = keyGrantStatement st name karn a"
  then have "sid (lifecycleStatement b) = sid (keyGrantStatement st name karn a)"
    by (rule arg_cong)
  then show False
    by (simp add: keyGrantStatement_eq lifecycleStatement_eq)
qed

lemma grant_no_key:
  "masterKey this = None \<Longrightarrow>
     grantGetSecretValue this g =
       (this, g\<lparr>policy := policy g @ [getSecretValueStatement (secretArn this)]\<rparr>)"
  by (simp add: grantGetSecretValue_def addToPolicy_def)

lemma grant_with_key:
  "masterKey this = Some k \<Longrightarrow>
     grantGetSecretValue this g =
       (this\<lparr>masterKey := Some (k\<lparr>resourcePolicy := resourcePolicy k @
            [keyDecryptResourceStatement (this_stack this) (principal g) (secretArnLike this)]\<rparr>)\<rparr>,
        g\<lparr>policy := policy g @ [getSecretValueStatement (secretArn this),
             keyDecryptPrincipalStatement (this_stack this) (keyArn k) (secretArn this)]\<rparr>)"
  by (simp add: grantGetSecretValue_def addToPolicy_def addToResourcePolicy_def Let_def)

subsection \<open>Matching against a pattern with a literal prefix\<close>

lemma glob_match_literal_prefix:
  "wildcard_free pre \<Longrightarrow>
     glob_match (pre @ q) s =
       (length pre \<le> length s \<and> take (length pre) s = pre \<and> glob_match q (drop (length pre) s))"
proof (induction pre arbitrary: s)
  case Nil
  then show ?case by simp
next
  case (Cons p pre)
  then have wf: "wildcard_free pre" and p: "p \<noteq> CHR ''*''" "p \<noteq> CHR ''?''"
    by (auto simp: wildcard_free_def)
  show ?case
  proof (cases s)
    case Nil
    with p show ?thesis by simp
  next
    case (Cons c cs)
    with p Cons.IH [OF wf, of cs] show ?thesis by auto
  qed
qed

lemma glob_match_questions:
  "glob_match (replicate n (CHR ''?'')) t = (length t = n)"
proof (induction n arbitrary: t)
  case 0
  then show ?case by (cases t) simp_all
next
  case (Suc n)
  then show ?case by (cases t) simp_all
qed

lemma wildcard_free_append:
  "wildcard_free (a @ b) = (wildcard_free a \<and> wildcard_free b)"
  by (auto simp: wildcard_free_def)

lemma secretArnLike_of_glob_match:
  assumes "wildcard_free (stackPartition st)" "wildcard_free (region st)"
    "wildcard_free (accountId st)" "wildcard_free name"
  shows "glob_match (secretArnLike_of st name) a = secretArnForm st name a"
proof -
  let ?p = "formatArn st \<lparr>service = ''secretsmanager'', resource = ''secret'', sep = '':'',
                            resourceName = name @ ''-''\<rparr>"
  have split: "secretArnLike_of st name = ?p @ replicate 6 (CHR ''?'')"
    by (simp add: secretArnLike_of_def formatArn_def numeral_eq_Suc)
  have wf: "wildcard_free ?p"
    using assms by (simp add: formatArn_def wildcard_free_append) (simp add: wildcard_free_def)
  have "glob_match (secretArnLike_of st name) a =
          (length ?p \<le> length a \<and> take (length ?p) a = ?p \<and> length (drop (length ?p) a) = 6)"
    by (simp only: split glob_match_literal_prefix [OF wf] glob_match_questions)
  also have "\<dots> = secretArnForm st name a"
    by (auto simp: secretArnForm_def Let_def)
  finally show ?thesis .
qed

section \<open>The claims\<close>

text \<open>
  C1. The constructor returns, and the dependencies of the custom resource always hold the
  edge from the secret operation to the handler's role. With an encryption key they hold
  one more edge, from the secret operation to the policy \<open>GrantLambdaRoleKeyAccess\<close>: a
  policy object of its own, attached to that role, whose statement is not among the
  statements of the role itself. Without a key the edge to the role is the only one.
  Every edge starts at the secret operation, so the edges never hold both an edge from the
  role to the key-grant policy and one from the key-grant policy to the role.
\<close>

theorem dependency_edges_of_secret:
  "\<exists>props' this r.
     new_RsaPrivateKeySecret env props = Inr (props', this)
     \<and> role (customResource this) = Some r
     \<and> (SecretOp, RoleOp r) \<in> set (dependencyEdges this)
     \<and> (case secretEncryptionKey props of
           None \<Rightarrow> dependencyEdges this = [(SecretOp, RoleOp r)] \<and> policies this = []
         | Some k \<Rightarrow>
             (\<exists>pol. policies this = [pol]
                    \<and> policyId pol = ''GrantLambdaRoleKeyAccess''
                    \<and> roles pol = [r]
                    \<and> statements pol =
                        [keyGrantStatement (stack env) (secretName props) (keyArn k)
                           (secretArnLike this)]
                    \<and> set (statements pol) \<inter> set (rolePolicy (customResource this)) = {}
                    \<and> dependencyEdges this = [(SecretOp, RoleOp r), (SecretOp, KeyGrantOp pol)]))
     \<and> (\<forall>pol. \<not> ((RoleOp r, KeyGrantOp pol) \<in> set (dependencyEdges this)
                    \<and> (KeyGrantOp pol, RoleOp r) \<in> set (dependencyEdges this)))
     \<and> (\<forall>e \<in> set (dependencyEdges this). fst e = SecretOp)"
proof (cases "secretEncryptionKey props")
  case None
  then show ?thesis
    by (simp add: new_no_key new_SingletonFunction_def dependencyEdges_def)
next
  case (Some k)
  then show ?thesis
    by (simp add: new_with_key new_SingletonFunction_def dependencyEdges_def
        lifecycle_not_keyGrant)
qed

theorem dependency_edges_of_secret_witness:
  "\<exists>props' this.
     new_RsaPrivateKeySecret ex_env ex_props_key = Inr (props', this)
     \<and> map fst (dependencyEdges this) = [SecretOp, SecretOp]
     \<and> (\<forall>e \<in> set (dependencyEdges this). fst e = SecretOp)
     \<and> (\<exists>r pol. role (customResource this) = Some r \<and> policies this = [pol] \<and> roles pol = [r]
                 \<and> map snd (dependencyEdges this) = [RoleOp r, KeyGrantOp pol])"
proof -
  have h: "secretEncryptionKey ex_props_key = Some ex_key"
    by (simp add: ex_props_key_def)
  from dependency_edges_of_secret [of ex_env ex_props_key]
  obtain props' this r pol where
    r: "new_RsaPrivateKeySecret ex_env ex_props_key = Inr (props', this)"
    and ro: "role (customResource this) = Some r"
    and p: "policies this = [pol]" "roles pol = [r]"
    and e: "dependencyEdges this = [(SecretOp, RoleOp r), (SecretOp, KeyGrantOp pol)]"
    and a: "\<forall>e \<in> set (dependencyEdges this). fst e = SecretOp"
    unfolding h option.case by blast
  have w: "map fst (dependencyEdges this) = [SecretOp, SecretOp]
     \<and> (\<forall>e \<in> set (dependencyEdges this). fst e = SecretOp)
     \<and> (\<exists>r pol. role (customResource this) = Some r \<and> policies this = [pol] \<and> roles pol = [r]
                 \<and> map snd (dependencyEdges this) = [RoleOp r, KeyGrantOp pol])"
    using ro p a by (simp add: e)
  show ?thesis
    by (rule exI [of _ props'], rule exI [of _ this], rule conjI [OF r w])
qed

text \<open>
  C2, as amended. With an encryption key, each of the two key-use statements grants
  exactly \<open>kms:Decrypt\<close> and \<open>kms:GenerateDataKey\<close> under \<open>StringEquals\<close> of
  \<open>kms:ViaService\<close> with the Secrets Manager endpoint of the stack's region. The
  statement of the separate policy of the role has \<open>StringLike\<close> of
  \<open>kms:EncryptionContext:SecretARN\<close> with the list of the secret's ARN pattern and
  \<open>RequestToValidateKeyAccess\<close>; the statement added to the key's resource policy has
  \<open>ArnLike\<close> of that key with the ARN pattern alone.
\<close>

theorem key_use_statements:
  assumes "secretEncryptionKey props = Some k"
  shows "\<exists>props' this.
     new_RsaPrivateKeySecret env props = Inr (props', this)
     \<and> secretArnLike this = secretArnLike_of (stack env) (secretName props)
     \<and> masterKey this =
         Some (k\<lparr>resourcePolicy := resourcePolicy k @
           [\<lparr>sid = Some (''Allow use via AWS Secrets Manager by CustomResource handler ''
                           @ functionNameToken env),
             actions = [''kms:Decrypt'', ''kms:GenerateDataKey''],
             resources = [''*''],
             principals = [ArnPrincipal (roleArnToken env)],
             conditions =
               [(''StringEquals'', ''kms:ViaService'',
                   Str (''secretsmanager.'' @ region (stack env) @ ''.amazonaws.com'')),
                (''ArnLike'', ''kms:EncryptionContext:SecretARN'', Str (secretArnLike this))]\<rparr>]\<rparr>)
     \<and> policies this =
         [\<lparr>policyId = ''GrantLambdaRoleKeyAccess'',
           roles = [\<lparr>roleArn = roleArnToken env\<rparr>],
           statements =
             [\<lparr>sid = Some (''AWSSecretsManager'' @ filter alnum (secretName props) @ ''CMK''),
               actions = [''kms:Decrypt'', ''kms:GenerateDataKey''],
               resources = [keyArn k],
               principals = [],
               conditions =
                 [(''StringEquals'', ''kms:ViaService'',
                     Str (''secretsmanager.'' @ region (stack env) @ ''.amazonaws.com'')),
                  (''StringLike'', ''kms:EncryptionContext:SecretARN'',
                     Arr [secretArnLike this, ''RequestToValidateKeyAccess''])]\<rparr>]\<rparr>]
     \<and> rolePolicy (customResource this) = [lifecycleStatement (secretArnLike this)]"
  using assms
  by (simp add: new_with_key keyResourceStatement_eq keyGrantStatement_eq viaService_def)

theorem key_use_statements_witness:
  "secretEncryptionKey ex_props_key = Some ex_key
   \<and> (\<exists>props' this pol.
         new_RsaPrivateKeySecret ex_env ex_props_key = Inr (props', this)
         \<and> policies this = [pol]
         \<and> map secretRefValues (statements pol) =
             [[Arr [''arn:aws:secretsmanager:us-east-1:123456789012:secret:db-root-??????'',
                    ''RequestToValidateKeyAccess'']]]
         \<and> map secretRefValues (keyPolicy this) =
             [[Str ''arn:aws:secretsmanager:us-east-1:123456789012:secret:db-root-??????'']])"
proof -
  have h: "secretEncryptionKey ex_props_key = Some ex_key"
    by (simp add: ex_props_key_def)
  from key_use_statements [OF h, of ex_env]
  obtain props' this where
    r: "new_RsaPrivateKeySecret ex_env ex_props_key = Inr (props', this)"
    and a: "secretArnLike this = secretArnLike_of (stack ex_env) (secretName ex_props_key)"
    and m: "masterKey this =
         Some (ex_key\<lparr>resourcePolicy := resourcePolicy ex_key @
           [\<lparr>sid = Some (''Allow use via AWS Secrets Manager by CustomResource handler ''
                           @ functionNameToken ex_env),
             actions = [''kms:Decrypt'', ''kms:GenerateDataKey''],
             resources = [''*''],
             principals = [ArnPrincipal (roleArnToken ex_env)],
             conditions =
               [(''StringEquals'', ''kms:ViaService'',
                   Str (''secretsmanager.'' @ region (stack ex_env) @ ''.amazonaws.com'')),
                (''ArnLike'', ''kms:EncryptionContext:SecretARN'', Str (secretArnLike this))]\<rparr>]\<rparr>)"
    and p: "policies this =
         [\<lparr>policyId = ''GrantLambdaRoleKeyAccess'',
           roles = [\<lparr>roleArn = roleArnToken ex_env\<rparr>],
           statements =
             [\<lparr>sid = Some (''AWSSecretsManager'' @ filter alnum (secretName ex_props_key) @ ''CMK''),
               actions = [''kms:Decrypt'', ''kms:GenerateDataKey''],
               resources = [keyArn ex_key],
               principals = [],
               conditions =
                 [(''StringEquals'', ''kms:ViaService'',
                     Str (''secretsmanager.'' @ region (stack ex_env) @ ''.amazonaws.com'')),
                  (''StringLike'', ''kms:EncryptionContext:SecretARN'',
                     Arr [secretArnLike this, ''RequestToValidateKeyAccess''])]\<rparr>]\<rparr>]"
    by blast
  have a': "secretArnLike this =
              ''arn:aws:secretsmanager:us-east-1:123456789012:secret:db-root-??????''"
    by (simp add: a secretArnLike_of_def formatArn_def ex_env_def ex_stack_def ex_props_key_def
        ex_props_def)
  have k: "resourcePolicy ex_key = []"
    by (simp add: ex_key_def)
  have w: "\<exists>pol. policies this = [pol]
         \<and> map secretRefValues (statements pol) =
             [[Arr [''arn:aws:secretsmanager:us-east-1:123456789012:secret:db-root-??????'',
                    ''RequestToValidateKeyAccess'']]]
         \<and> map secretRefValues (keyPolicy this) =
             [[Str ''arn:aws:secretsmanager:us-east-1:123456789012:secret:db-root-??????'']]"
    by (simp add: p m a' k keyPolicy_def secretRefValues_def)
  have "\<exists>props' this pol.
         new_RsaPrivateKeySecret ex_env ex_props_key = Inr (props', this)
         \<and> policies this = [pol]
         \<and> map secretRefValues (statements pol) =
             [[Arr [''arn:aws:secretsmanager:us-east-1:123456789012:secret:db-root-??????'',
                    ''RequestToValidateKeyAccess'']]]
         \<and> map secretRefValues (keyPolicy this) =
             [[Str ''arn:aws:secretsmanager:us-east-1:123456789012:secret:db-root-??????'']]"
    using r w by (intro exI [of _ props'] exI [of _ this]) simp
  with h show ?thesis
    by (rule conjI)
qed

text \<open>
  C2 as stated fails for the statement on the key's resource policy (lines 88 to 98): it
  grants the two actions, but its condition on \<open>kms:EncryptionContext:SecretARN\<close> names
  the ARN pattern only, which \<open>RequestToValidateKeyAccess\<close> does not match.
\<close>

theorem key_resource_statement_no_allow_list_counterexample:
  "map_option (map actions \<circ> keyPolicy) (built (new_RsaPrivateKeySecret ex_env ex_props_key)) =
     Some [[''kms:Decrypt'', ''kms:GenerateDataKey'']]
   \<and> map_option (map secretRefValues \<circ> keyPolicy)
        (built (new_RsaPrivateKeySecret ex_env ex_props_key)) =
     Some [[Str ''arn:aws:secretsmanager:us-east-1:123456789012:secret:db-root-??????'']]
   \<and> \<not> glob_match ''arn:aws:secretsmanager:us-east-1:123456789012:secret:db-root-??????''
         ''RequestToValidateKeyAccess''"
proof -
  have h: "secretEncryptionKey ex_props_key = Some ex_key"
    by (simp add: ex_props_key_def)
  have a: "secretArnLike_of (stack ex_env) (secretName ex_props_key) =
              ''arn:aws:secretsmanager:us-east-1:123456789012:secret:db-root-??????''"
    by (simp add: secretArnLike_of_def formatArn_def ex_env_def ex_stack_def ex_props_key_def
        ex_props_def)
  have k: "resourcePolicy ex_key = []"
    by (simp add: ex_key_def)
  show ?thesis
    by (simp add: new_with_key [OF h] built_def keyPolicy_def secretRefValues_def
        keyResourceStatement_eq a k)
qed

text \<open>
  C3. On an object with an encryption key, \<open>grantGetSecretValue\<close> adds exactly three
  statements: to the grantee, \<open>secretsmanager:GetSecretValue\<close> on the secret's ARN; to
  the key's resource policy, \<open>kms:Decrypt\<close> for the grantee's principal under
  \<open>StringEquals\<close> of \<open>kms:ViaService\<close> and \<open>ArnLike\<close> of the secret reference with the
  ARN pattern; to the grantee, \<open>kms:Decrypt\<close> on the key's ARN under the same
  \<open>kms:ViaService\<close> value and \<open>ArnEquals\<close> of the secret reference with the secret's ARN.
\<close>

theorem grant_with_key_three_statements:
  assumes "masterKey this = Some k"
  shows "grantGetSecretValue this grantee =
           (this\<lparr>masterKey := Some (k\<lparr>resourcePolicy := resourcePolicy k @
               [\<lparr>sid = None, actions = [''kms:Decrypt''], resources = [''*''],
                 principals = [principal grantee],
                 conditions =
                   [(''StringEquals'', ''kms:ViaService'',
                       Str (''secretsmanager.'' @ region (this_stack this) @ ''.amazonaws.com'')),
                    (''ArnLike'', ''kms:EncryptionContext:SecretARN'',
                       Str (secretArnLike this))]\<rparr>]\<rparr>)\<rparr>,
            grantee\<lparr>policy := policy grantee @
               [\<lparr>sid = None, actions = [''secretsmanager:GetSecretValue''],
                 resources = [secretArn this], principals = [], conditions = []\<rparr>,
                \<lparr>sid = None, actions = [''kms:Decrypt''], resources = [keyArn k],
                 principals = [],
                 conditions =
                   [(''StringEquals'', ''kms:ViaService'',
                       Str (''secretsmanager.'' @ region (this_stack this) @ ''.amazonaws.com'')),
                    (''ArnEquals'', ''kms:EncryptionContext:SecretARN'',
                       Str (secretArn this))]\<rparr>]\<rparr>)"
  using assms
  by (simp add: grant_with_key getSecretValueStatement_eq keyDecryptResourceStatement_eq
      keyDecryptPrincipalStatement_eq viaService_def)

theorem grant_with_key_three_statements_witness:
  "\<exists>props' this.
     new_RsaPrivateKeySecret ex_env ex_props_key = Inr (props', this)
     \<and> masterKey this \<noteq> None
     \<and> secretArnLike this = ''arn:aws:secretsmanager:us-east-1:123456789012:secret:db-root-??????''
     \<and> policy (snd (grantGetSecretValue this ex_grantee)) =
           [\<lparr>sid = None, actions = [''secretsmanager:GetSecretValue''],
             resources = [''att-SecretArn''], principals = [], conditions = []\<rparr>,
            \<lparr>sid = None, actions = [''kms:Decrypt''],
             resources = [''arn:aws:kms:us-east-1:123456789012:key/k1''],
             principals = [],
             conditions =
               [(''StringEquals'', ''kms:ViaService'', Str ''secretsmanager.us-east-1.amazonaws.com''),
                (''ArnEquals'', ''kms:EncryptionContext:SecretARN'', Str ''att-SecretArn'')]\<rparr>]
     \<and> map (\<lambda>s. (actions s, principals s, conditions s))
           (drop 1 (keyPolicy (fst (grantGetSecretValue this ex_grantee)))) =
           [([''kms:Decrypt''], [ArnPrincipal ''arn:aws:iam::123456789012:role/reader''],
               [(''StringEquals'', ''kms:ViaService'', Str ''secretsmanager.us-east-1.amazonaws.com''),
                (''ArnLike'', ''kms:EncryptionContext:SecretARN'',
                   Str ''arn:aws:secretsmanager:us-east-1:123456789012:secret:db-root-??????'')])]"
proof -
  have h: "secretEncryptionKey ex_props_key = Some ex_key"
    by (simp add: ex_props_key_def)
  obtain P T where r: "new_RsaPrivateKeySecret ex_env ex_props_key = Inr (P, T)"
    and m: "masterKey T = Some (ex_key\<lparr>resourcePolicy := resourcePolicy ex_key @
                 [keyResourceStatement (stack ex_env) (functionNameToken ex_env) (roleArnToken ex_env)
                    (secretArnLike_of (stack ex_env) (secretName ex_props_key))]\<rparr>)"
    and f: "secretArn T = getAtt ex_env ''SecretArn''"
      "secretArnLike T = secretArnLike_of (stack ex_env) (secretName ex_props_key)"
      "this_stack T = stack ex_env"
    by (simp add: new_with_key [OF h, of ex_env])
  have a: "secretArnLike_of (stack ex_env) (secretName ex_props_key) =
             ''arn:aws:secretsmanager:us-east-1:123456789012:secret:db-root-??????''"
    by (simp add: secretArnLike_of_def formatArn_def ex_env_def ex_stack_def ex_props_key_def
        ex_props_def)
  have g: "getAtt ex_env ''SecretArn'' = ''att-SecretArn''" "region (stack ex_env) = ''us-east-1''"
    by (simp_all add: ex_env_def ex_stack_def)
  have k: "keyArn ex_key = ''arn:aws:kms:us-east-1:123456789012:key/k1''"
    "resourcePolicy ex_key = []"
    "principal ex_grantee = ArnPrincipal ''arn:aws:iam::123456789012:role/reader''"
    "policy ex_grantee = []"
    by (simp_all add: ex_key_def ex_grantee_def)
  from grant_with_key_three_statements [OF m, of ex_grantee]
  have w: "masterKey T \<noteq> None
     \<and> secretArnLike T = ''arn:aws:secretsmanager:us-east-1:123456789012:secret:db-root-??????''
     \<and> policy (snd (grantGetSecretValue T ex_grantee)) =
           [\<lparr>sid = None, actions = [''secretsmanager:GetSecretValue''],
             resources = [''att-SecretArn''], principals = [], conditions = []\<rparr>,
            \<lparr>sid = None, actions = [''kms:Decrypt''],
             resources = [''arn:aws:kms:us-east-1:123456789012:key/k1''],
             principals = [],
             conditions =
               [(''StringEquals'', ''kms:ViaService'', Str ''secretsmanager.us-east-1.amazonaws.com''),
                (''ArnEquals'', ''kms:EncryptionContext:SecretARN'', Str ''att-SecretArn'')]\<rparr>]
     \<and> map (\<lambda>s. (actions s, principals s, conditions s))
           (drop 1 (keyPolicy (fst (grantGetSecretValue T ex_grantee)))) =
           [([''kms:Decrypt''], [ArnPrincipal ''arn:aws:iam::123456789012:role/reader''],
               [(''StringEquals'', ''kms:ViaService'', Str ''secretsmanager.us-east-1.amazonaws.com''),
                (''ArnLike'', ''kms:EncryptionContext:SecretARN'',
                   Str ''arn:aws:secretsmanager:us-east-1:123456789012:secret:db-root-??????'')])]"
    by (simp add: m f a g k keyPolicy_def)
  show ?thesis
    by (rule exI [of _ P], rule exI [of _ T], rule conjI [OF r w])
qed

text \<open>
  C4. A second \<open>grantGetSecretValue\<close> for the same grantee appends the statements the
  first call appended, to the grantee's policy and to the key's resource policy. The
  statements of either policy are the same set after one call and after two, so whatever
  decides that a statement grants a request, both policies grant the same requests.
\<close>

theorem grant_twice_same_permissions:
  assumes "grantGetSecretValue this grantee = (this1, g1)"
    and "grantGetSecretValue this1 g1 = (this2, g2)"
  shows "(\<exists>added. policy g1 = policy grantee @ added \<and> policy g2 = policy g1 @ added)
         \<and> (\<exists>added. keyPolicy this1 = keyPolicy this @ added
                      \<and> keyPolicy this2 = keyPolicy this1 @ added)
         \<and> set (policy g2) = set (policy g1)
         \<and> set (keyPolicy this2) = set (keyPolicy this1)
         \<and> policy_grants allows (policy g2) req = policy_grants allows (policy g1) req
         \<and> policy_grants allows (keyPolicy this2) req = policy_grants allows (keyPolicy this1) req
         \<and> principal g2 = principal grantee
         \<and> this2 = this1\<lparr>masterKey := masterKey this2\<rparr>"
proof (cases "masterKey this")
  case None
  with assms have 1: "this1 = this"
    "g1 = grantee\<lparr>policy := policy grantee @ [getSecretValueStatement (secretArn this)]\<rparr>"
    by (auto simp: grant_no_key)
  with None assms(2) have 2: "this2 = this"
    "g2 = g1\<lparr>policy := policy g1 @ [getSecretValueStatement (secretArn this)]\<rparr>"
    by (auto simp: grant_no_key)
  show ?thesis
    using 1 2 by (auto simp: policy_grants_def list_ex_iff)
next
  case (Some k)
  let ?rs = "keyDecryptResourceStatement (this_stack this) (principal grantee) (secretArnLike this)"
  let ?ps = "[getSecretValueStatement (secretArn this),
              keyDecryptPrincipalStatement (this_stack this) (keyArn k) (secretArn this)]"
  from Some assms(1) have 1:
    "this1 = this\<lparr>masterKey := Some (k\<lparr>resourcePolicy := resourcePolicy k @ [?rs]\<rparr>)\<rparr>"
    "g1 = grantee\<lparr>policy := policy grantee @ ?ps\<rparr>"
    by (auto simp: grant_with_key)
  have m1: "masterKey this1 = Some (k\<lparr>resourcePolicy := resourcePolicy k @ [?rs]\<rparr>)"
    by (simp add: 1)
  have "grantGetSecretValue this1 g1 =
          (this1\<lparr>masterKey := Some (k\<lparr>resourcePolicy := resourcePolicy k @ [?rs] @ [?rs]\<rparr>)\<rparr>,
           g1\<lparr>policy := policy g1 @ ?ps\<rparr>)"
    using grant_with_key [OF m1, of g1] by (simp add: 1)
  with assms(2) have 2:
    "this2 = this1\<lparr>masterKey := Some (k\<lparr>resourcePolicy := resourcePolicy k @ [?rs] @ [?rs]\<rparr>)\<rparr>"
    "g2 = g1\<lparr>policy := policy g1 @ ?ps\<rparr>"
    by simp_all
  have kp: "keyPolicy this = resourcePolicy k" "keyPolicy this1 = resourcePolicy k @ [?rs]"
    "keyPolicy this2 = (resourcePolicy k @ [?rs]) @ [?rs]"
    using Some by (simp_all add: keyPolicy_def 1 2)
  have gp: "policy g1 = policy grantee @ ?ps" "policy g2 = (policy grantee @ ?ps) @ ?ps"
    by (simp_all add: 1 2)
  have a: "\<exists>added. policy g1 = policy grantee @ added \<and> policy g2 = policy g1 @ added"
    by (rule exI [of _ ?ps]) (simp add: gp)
  have b: "\<exists>added. keyPolicy this1 = keyPolicy this @ added
                      \<and> keyPolicy this2 = keyPolicy this1 @ added"
    by (rule exI [of _ "[?rs]"]) (simp add: kp)
  have c: "set (policy g2) = set (policy g1)" "set (keyPolicy this2) = set (keyPolicy this1)"
    by (simp_all only: gp kp set_append Un_assoc Un_absorb)
  have d: "policy_grants allows (policy g2) req = policy_grants allows (policy g1) req"
    "policy_grants allows (keyPolicy this2) req = policy_grants allows (keyPolicy this1) req"
    using c by (simp_all add: policy_grants_def list_ex_iff)
  have e: "principal g2 = principal grantee" "this2 = this1\<lparr>masterKey := masterKey this2\<rparr>"
    by (simp_all add: 1 2)
  show ?thesis
    by (intro conjI a b c d e)
qed

theorem grant_twice_same_permissions_witness:
  "\<exists>props' this.
     new_RsaPrivateKeySecret ex_env ex_props_key = Inr (props', this)
     \<and> set (policy (snd (grantGetSecretValue (fst (grantGetSecretValue this ex_grantee))
                            (snd (grantGetSecretValue this ex_grantee))))) =
         set (policy (snd (grantGetSecretValue this ex_grantee)))
     \<and> set (keyPolicy (fst (grantGetSecretValue (fst (grantGetSecretValue this ex_grantee))
                               (snd (grantGetSecretValue this ex_grantee))))) =
         set (keyPolicy (fst (grantGetSecretValue this ex_grantee)))"
proof -
  have h: "secretEncryptionKey ex_props_key = Some ex_key"
    by (simp add: ex_props_key_def)
  obtain P T where r: "new_RsaPrivateKeySecret ex_env ex_props_key = Inr (P, T)"
    by (simp add: new_with_key [OF h, of ex_env])
  let ?a = "grantGetSecretValue T ex_grantee"
  let ?b = "grantGetSecretValue (fst ?a) (snd ?a)"
  have 1: "?a = (fst ?a, snd ?a)" and 2: "?b = (fst ?b, snd ?b)"
    by simp_all
  note t = grant_twice_same_permissions [OF 1 2]
  have w: "set (policy (snd ?b)) = set (policy (snd ?a))
           \<and> set (keyPolicy (fst ?b)) = set (keyPolicy (fst ?a))"
    by (rule conjI [OF t [THEN conjunct2, THEN conjunct2, THEN conjunct1]
                       t [THEN conjunct2, THEN conjunct2, THEN conjunct2, THEN conjunct1]])
  show ?thesis
    by (rule exI [of _ P], rule exI [of _ T], rule conjI [OF r w])
qed

text \<open>
  C5, as amended. The constructor validates nothing: for every specification it returns,
  and the request to the backend carries the key size and the secret name as given.
\<close>

theorem no_local_validation:
  "dispatched (new_RsaPrivateKeySecret env props) =
     Some \<lparr>resourceVersion = hashFileOrDirectory env (codeLocation_of env),
           cr_description = description props,
           cr_keySize = keySize props,
           cr_secretName = secretName props,
           kmsKeyId = map_option keyArn (secretEncryptionKey props)\<rparr>"
proof (cases "secretEncryptionKey props")
  case None
  then show ?thesis
    by (simp add: dispatched_def built_def new_no_key)
next
  case (Some k)
  then show ?thesis
    by (simp add: dispatched_def built_def new_with_key)
qed

text \<open>
  C5 as stated fails: a specification with key size 0 and an empty secret name is not
  rejected, and the request built for the backend carries both values.
\<close>

theorem invalid_spec_dispatched_counterexample:
  "dispatched (new_RsaPrivateKeySecret ex_env (ex_props\<lparr>keySize := 0, secretName := ''''\<rparr>)) =
     Some \<lparr>resourceVersion = ''h1'', cr_description = None, cr_keySize = 0,
           cr_secretName = '''', kmsKeyId = None\<rparr>"
proof -
  have h: "secretEncryptionKey (ex_props\<lparr>keySize := 0, secretName := ''''\<rparr>) = None"
    by (simp add: ex_props_def)
  show ?thesis
    by (simp add: dispatched_def built_def new_no_key [OF h]) (simp add: ex_props_def ex_env_def)
qed

text \<open>
  C6, as amended. Without an encryption key the constructor returns, and the handler's
  role has exactly one statement: the actions \<open>secretsmanager:CreateSecret\<close>,
  \<open>secretsmanager:DeleteSecret\<close> and \<open>secretsmanager:UpdateSecret\<close> on the secret's ARN
  pattern and on nothing else. No separate policy is created, and there is no key whose
  resource policy could receive a statement. When the secret name and the stack's
  partition, region and account contain neither \<open>*\<close> nor \<open>?\<close>, that one resource matches
  the ARNs of this secret name followed by \<open>-\<close> and six characters, and no other ARN.
\<close>

theorem no_key_one_scoped_lifecycle_statement:
  assumes "secretEncryptionKey props = None"
  shows "\<exists>props' this.
           new_RsaPrivateKeySecret env props = Inr (props', this)
           \<and> secretArnLike this = secretArnLike_of (stack env) (secretName props)
           \<and> rolePolicy (customResource this) =
               [\<lparr>sid = None,
                 actions = [''secretsmanager:CreateSecret'', ''secretsmanager:DeleteSecret'',
                            ''secretsmanager:UpdateSecret''],
                 resources = [secretArnLike this],
                 principals = [],
                 conditions = []\<rparr>]
           \<and> policies this = []
           \<and> masterKey this = None
           \<and> keyPolicy this = []
           \<and> secretEncryptionKey props' = None
           \<and> (wildcard_free (stackPartition (stack env)) \<and> wildcard_free (region (stack env))
                \<and> wildcard_free (accountId (stack env)) \<and> wildcard_free (secretName props)
                \<longrightarrow> (\<forall>a. glob_match (secretArnLike this) a =
                            secretArnForm (stack env) (secretName props) a))"
  using assms
  by (simp add: new_no_key lifecycleStatement_eq keyPolicy_def secretArnLike_of_glob_match)

theorem no_key_one_scoped_lifecycle_statement_witness:
  "secretEncryptionKey ex_props = None
   \<and> wildcard_free (stackPartition (stack ex_env)) \<and> wildcard_free (region (stack ex_env))
   \<and> wildcard_free (accountId (stack ex_env)) \<and> wildcard_free (secretName ex_props)
   \<and> (\<exists>props' this.
         new_RsaPrivateKeySecret ex_env ex_props = Inr (props', this)
         \<and> rolePolicy (customResource this) =
             [\<lparr>sid = None,
               actions = [''secretsmanager:CreateSecret'', ''secretsmanager:DeleteSecret'',
                          ''secretsmanager:UpdateSecret''],
               resources = [''arn:aws:secretsmanager:us-east-1:123456789012:secret:db-root-??????''],
               principals = [],
               conditions = []\<rparr>]
         \<and> policies this = []
         \<and> glob_match (secretArnLike this)
             ''arn:aws:secretsmanager:us-east-1:123456789012:secret:db-root-AbCdEf''
         \<and> \<not> glob_match (secretArnLike this)
             ''arn:aws:secretsmanager:us-east-1:123456789012:secret:payroll-AbCdEf'')"
proof -
  have h: "secretEncryptionKey ex_props = None"
    by (simp add: ex_props_def)
  have wf: "wildcard_free (stackPartition (stack ex_env)) \<and> wildcard_free (region (stack ex_env))
            \<and> wildcard_free (accountId (stack ex_env)) \<and> wildcard_free (secretName ex_props)"
    by (simp add: wildcard_free_def ex_env_def ex_stack_def ex_props_def)
  from no_key_one_scoped_lifecycle_statement [OF h, of ex_env]
  obtain props' this where
    r: "new_RsaPrivateKeySecret ex_env ex_props = Inr (props', this)"
    and a: "secretArnLike this = secretArnLike_of (stack ex_env) (secretName ex_props)"
    and p: "rolePolicy (customResource this) =
               [\<lparr>sid = None,
                 actions = [''secretsmanager:CreateSecret'', ''secretsmanager:DeleteSecret'',
                            ''secretsmanager:UpdateSecret''],
                 resources = [secretArnLike this],
                 principals = [],
                 conditions = []\<rparr>]"
    and q: "policies this = []"
    and g: "wildcard_free (stackPartition (stack ex_env)) \<and> wildcard_free (region (stack ex_env))
              \<and> wildcard_free (accountId (stack ex_env)) \<and> wildcard_free (secretName ex_props)
            \<longrightarrow> (\<forall>a. glob_match (secretArnLike this) a =
                        secretArnForm (stack ex_env) (secretName ex_props) a)"
    by blast
  from g wf have m: "\<And>a. glob_match (secretArnLike this) a =
                        secretArnForm (stack ex_env) (secretName ex_props) a"
    by simp
  have a': "secretArnLike this =
          ''arn:aws:secretsmanager:us-east-1:123456789012:secret:db-root-??????''"
    by (simp add: a secretArnLike_of_def formatArn_def ex_env_def ex_stack_def ex_props_def)
  have f1: "secretArnForm (stack ex_env) (secretName ex_props)
              ''arn:aws:secretsmanager:us-east-1:123456789012:secret:db-root-AbCdEf''"
    by (simp add: secretArnForm_def formatArn_def ex_env_def ex_stack_def ex_props_def)
  have f2: "\<not> secretArnForm (stack ex_env) (secretName ex_props)
              ''arn:aws:secretsmanager:us-east-1:123456789012:secret:payroll-AbCdEf''"
    by (simp add: secretArnForm_def formatArn_def ex_env_def ex_stack_def ex_props_def)
  have w: "rolePolicy (customResource this) =
             [\<lparr>sid = None,
               actions = [''secretsmanager:CreateSecret'', ''secretsmanager:DeleteSecret'',
                          ''secretsmanager:UpdateSecret''],
               resources = [''arn:aws:secretsmanager:us-east-1:123456789012:secret:db-root-??????''],
               principals = [],
               conditions = []\<rparr>]
         \<and> policies this = []
         \<and> glob_match (secretArnLike this)
             ''arn:aws:secretsmanager:us-east-1:123456789012:secret:db-root-AbCdEf''
         \<and> \<not> glob_match (secretArnLike this)
             ''arn:aws:secretsmanager:us-east-1:123456789012:secret:payroll-AbCdEf''"
    using p q f1 f2 by (simp only: m) (simp add: a')
  have e: "\<exists>props' this.
         new_RsaPrivateKeySecret ex_env ex_props = Inr (props', this)
         \<and> rolePolicy (customResource this) =
             [\<lparr>sid = None,
               actions = [''secretsmanager:CreateSecret'', ''secretsmanager:DeleteSecret'',
                          ''secretsmanager:UpdateSecret''],
               resources = [''arn:aws:secretsmanager:us-east-1:123456789012:secret:db-root-??????''],
               principals = [],
               conditions = []\<rparr>]
         \<and> policies this = []
         \<and> glob_match (secretArnLike this)
             ''arn:aws:secretsmanager:us-east-1:123456789012:secret:db-root-AbCdEf''
         \<and> \<not> glob_match (secretArnLike this)
             ''arn:aws:secretsmanager:us-east-1:123456789012:secret:payroll-AbCdEf''"
    by (rule exI [of _ props'], rule exI [of _ this], rule conjI [OF r w])
  show ?thesis
    by (rule conjI [OF h], rule conjI [OF wf [THEN conjunct1]],
        rule conjI [OF wf [THEN conjunct2, THEN conjunct1]],
        rule conjI [OF wf [THEN conjunct2, THEN conjunct2, THEN conjunct1]],
        rule conjI [OF wf [THEN conjunct2, THEN conjunct2, THEN conjunct2] e])
qed

text \<open>
  C6 as stated fails where it excludes account-wide access: the secret name \<open>*\<close> is put
  into the pattern as it is, and the resource of the one statement then matches the ARNs
  of other secrets of the account and region, here of \<open>payroll\<close> and of \<open>db-root\<close>.
\<close>

theorem lifecycle_statement_wildcard_name_counterexample:
  "secretEncryptionKey (ex_props\<lparr>secretName := ''*''\<rparr>) = None
   \<and> map_option (map resources \<circ> rolePolicy \<circ> customResource)
        (built (new_RsaPrivateKeySecret ex_env (ex_props\<lparr>secretName := ''*''\<rparr>))) =
       Some [[''arn:aws:secretsmanager:us-east-1:123456789012:secret:*-??????'']]
   \<and> glob_match ''arn:aws:secretsmanager:us-east-1:123456789012:secret:*-??????''
        ''arn:aws:secretsmanager:us-east-1:123456789012:secret:payroll-AbCdEf''
   \<and> glob_match ''arn:aws:secretsmanager:us-east-1:123456789012:secret:*-??????''
        ''arn:aws:secretsmanager:us-east-1:123456789012:secret:db-root-Zz9876''"
proof -
  have h: "secretEncryptionKey (ex_props\<lparr>secretName := ''*''\<rparr>) = None"
    by (simp add: ex_props_def)
  have a: "secretArnLike_of (stack ex_env) ''*'' =
             ''arn:aws:secretsmanager:us-east-1:123456789012:secret:*-??????''"
    by (simp add: secretArnLike_of_def formatArn_def ex_env_def ex_stack_def)
  have r: "map_option (map resources \<circ> rolePolicy \<circ> customResource)
        (built (new_RsaPrivateKeySecret ex_env (ex_props\<lparr>secretName := ''*''\<rparr>))) =
       Some [[''arn:aws:secretsmanager:us-east-1:123456789012:secret:*-??????'']]"
    by (simp add: new_no_key [OF h] built_def lifecycleStatement_eq a)
  have g1: "glob_match ''arn:aws:secretsmanager:us-east-1:123456789012:secret:*-??????''
        ''arn:aws:secretsmanager:us-east-1:123456789012:secret:payroll-AbCdEf''"
    by simp
  have g2: "glob_match ''arn:aws:secretsmanager:us-east-1:123456789012:secret:*-??????''
        ''arn:aws:secretsmanager:us-east-1:123456789012:secret:db-root-Zz9876''"
    by simp
  show ?thesis
    by (rule conjI [OF h conjI [OF r conjI [OF g1 g2]]])
qed

text \<open>
  C7, as amended. The pattern is the stack's ARN of service \<open>secretsmanager\<close>, resource
  \<open>secret\<close>, separator \<open>:\<close> and resource name \<open>secretName-??????\<close>. When the secret name
  and the stack's partition, region and account contain neither \<open>*\<close> nor \<open>?\<close>, the
  pattern matches exactly the ARNs of that secret name followed by \<open>-\<close> and six
  characters.
\<close>

theorem secretArnLike_matches_exactly:
  assumes "wildcard_free (stackPartition st)" "wildcard_free (region st)"
    "wildcard_free (accountId st)" "wildcard_free name"
  shows "secretArnLike_of st name =
           formatArn st \<lparr>service = ''secretsmanager'', resource = ''secret'', sep = '':'',
                          resourceName = name @ ''-??????''\<rparr>
         \<and> secretArnLike_of st name =
             ''arn:'' @ stackPartition st @ '':secretsmanager:'' @ region st @ '':'' @ accountId st
               @ '':secret:'' @ name @ ''-??????''
         \<and> glob_match (secretArnLike_of st name) a = secretArnForm st name a"
proof -
  let ?p = "formatArn st \<lparr>service = ''secretsmanager'', resource = ''secret'', sep = '':'',
                            resourceName = name @ ''-''\<rparr>"
  have split: "secretArnLike_of st name = ?p @ replicate 6 (CHR ''?'')"
    by (simp add: secretArnLike_of_def formatArn_def numeral_eq_Suc)
  have wf: "wildcard_free ?p"
    using assms by (simp add: formatArn_def wildcard_free_append) (simp add: wildcard_free_def)
  have "glob_match (secretArnLike_of st name) a =
          (length ?p \<le> length a \<and> take (length ?p) a = ?p \<and> length (drop (length ?p) a) = 6)"
    by (simp only: split glob_match_literal_prefix [OF wf] glob_match_questions)
  also have "\<dots> = secretArnForm st name a"
    by (auto simp: secretArnForm_def Let_def)
  finally have m: "glob_match (secretArnLike_of st name) a = secretArnForm st name a" .
  show ?thesis
    using m by (simp add: secretArnLike_of_def formatArn_def)
qed

theorem secretArnLike_matches_exactly_witness:
  "wildcard_free (stackPartition ex_stack) \<and> wildcard_free (region ex_stack)
   \<and> wildcard_free (accountId ex_stack) \<and> wildcard_free ''db-root''
   \<and> secretArnLike_of ex_stack ''db-root'' =
       ''arn:aws:secretsmanager:us-east-1:123456789012:secret:db-root-??????''
   \<and> glob_match (secretArnLike_of ex_stack ''db-root'')
       ''arn:aws:secretsmanager:us-east-1:123456789012:secret:db-root-AbCdEf''
   \<and> \<not> glob_match (secretArnLike_of ex_stack ''db-root'')
       ''arn:aws:secretsmanager:us-east-1:123456789012:secret:db-root-AbCdEfg''"
proof -
  have h: "wildcard_free (stackPartition ex_stack)" "wildcard_free (region ex_stack)"
    "wildcard_free (accountId ex_stack)" "wildcard_free ''db-root''"
    by (simp_all add: wildcard_free_def ex_stack_def)
  have f1: "secretArnForm ex_stack ''db-root''
              ''arn:aws:secretsmanager:us-east-1:123456789012:secret:db-root-AbCdEf''"
    by (simp add: secretArnForm_def formatArn_def ex_stack_def)
  have f2: "\<not> secretArnForm ex_stack ''db-root''
              ''arn:aws:secretsmanager:us-east-1:123456789012:secret:db-root-AbCdEfg''"
    by (simp add: secretArnForm_def formatArn_def ex_stack_def)
  have e: "secretArnLike_of ex_stack ''db-root'' =
       ''arn:aws:secretsmanager:us-east-1:123456789012:secret:db-root-??????''"
    by (simp add: secretArnLike_of_def formatArn_def ex_stack_def)
  show ?thesis
    using h f1 f2 e
      secretArnLike_matches_exactly [OF h,
        of "''arn:aws:secretsmanager:us-east-1:123456789012:secret:db-root-AbCdEf''"]
      secretArnLike_matches_exactly [OF h,
        of "''arn:aws:secretsmanager:us-east-1:123456789012:secret:db-root-AbCdEfg''"]
    by blast
qed

text \<open>
  C7 as stated fails for a secret name that contains a wildcard: for the name \<open>db*\<close> the
  pattern also matches an ARN of the secret \<open>db-root\<close>, which is not the name \<open>db*\<close>
  followed by \<open>-\<close> and six characters.
\<close>

theorem secretArnLike_wildcard_name_counterexample:
  "''db*'' \<noteq> []
   \<and> glob_match (secretArnLike_of ex_stack ''db*'')
       ''arn:aws:secretsmanager:us-east-1:123456789012:secret:db-root-AbCdEf''
   \<and> \<not> secretArnForm ex_stack ''db*''
       ''arn:aws:secretsmanager:us-east-1:123456789012:secret:db-root-AbCdEf''"
  by (simp add: secretArnLike_of_def formatArn_def ex_stack_def secretArnForm_def)

text \<open>
  C8. The \<open>resourceVersion\<close> of the request is the hash of the directory of the handler's
  code. For one specification, the requests built under two hash functions are equal
  exactly when the two hashes of the code directory are: another hash gives another
  request, the same hash the same request.
\<close>

theorem resourceVersion_is_code_hash:
  "\<exists>p1 t1 p2 t2.
     new_RsaPrivateKeySecret env props = Inr (p1, t1)
     \<and> new_RsaPrivateKeySecret env' props = Inr (p2, t2)
     \<and> code (customResource t1) = codeLocation_of env
     \<and> resourceVersion (properties (privateKey t1)) =
         hashFileOrDirectory env (code (customResource t1))
     \<and> (properties (privateKey t1) = properties (privateKey t2)) =
         (hashFileOrDirectory env (code (customResource t1)) =
            hashFileOrDirectory env' (code (customResource t2)))"
proof (cases "secretEncryptionKey props")
  case None
  then show ?thesis
    by (simp add: new_no_key new_SingletonFunction_def)
next
  case (Some k)
  then show ?thesis
    by (simp add: new_with_key new_SingletonFunction_def)
qed

theorem resourceVersion_is_code_hash_witness:
  "\<exists>p1 t1 p2 t2.
     new_RsaPrivateKeySecret ex_env ex_props = Inr (p1, t1)
     \<and> new_RsaPrivateKeySecret (ex_env\<lparr>hashFileOrDirectory := (\<lambda>p. ''h2'')\<rparr>) ex_props = Inr (p2, t2)
     \<and> resourceVersion (properties (privateKey t1)) = ''h1''
     \<and> properties (privateKey t1) \<noteq> properties (privateKey t2)"
proof -
  let ?env2 = "ex_env\<lparr>hashFileOrDirectory := (\<lambda>p. ''h2'')\<rparr>"
  from resourceVersion_is_code_hash [of ex_env ex_props ?env2]
  obtain p1 t1 p2 t2 where
    r1: "new_RsaPrivateKeySecret ex_env ex_props = Inr (p1, t1)"
    and r2: "new_RsaPrivateKeySecret ?env2 ex_props = Inr (p2, t2)"
    and v: "resourceVersion (properties (privateKey t1)) =
              hashFileOrDirectory ex_env (code (customResource t1))"
    and d: "(properties (privateKey t1) = properties (privateKey t2)) =
              (hashFileOrDirectory ex_env (code (customResource t1)) =
                 hashFileOrDirectory ?env2 (code (customResource t2)))"
    by blast
  have h1: "hashFileOrDirectory ex_env (code (customResource t1)) = ''h1''"
    by (simp add: ex_env_def)
  have h2: "hashFileOrDirectory ?env2 (code (customResource t2)) = ''h2''"
    by simp
  have w: "resourceVersion (properties (privateKey t1)) = ''h1''
           \<and> properties (privateKey t1) \<noteq> properties (privateKey t2)"
    using v d by (simp add: h1 h2)
  show ?thesis
    by (rule exI [of _ p1], rule exI [of _ t1], rule exI [of _ p2], rule exI [of _ t2],
        rule conjI [OF r1 conjI [OF r2 w]])
qed

text \<open>
  C9. When \<open>deletionPolicy\<close> is missing, the constructor writes \<open>Retain\<close> into the
  \<open>props\<close> object and sets it as the deletion policy of the custom resource. Apart from
  the key object, \<open>props\<close> is afterwards the object passed in with that field set, and so
  it differs from the object passed in.
\<close>

theorem default_deletionPolicy_written_to_props:
  assumes "deletionPolicy props = None"
  shows "\<exists>props' this.
           new_RsaPrivateKeySecret env props = Inr (props', this)
           \<and> deletionPolicy props' = Some Retain
           \<and> options_deletionPolicy (privateKey this) = Some Retain
           \<and> props'\<lparr>secretEncryptionKey := secretEncryptionKey props\<rparr> =
               props\<lparr>deletionPolicy := Some Retain\<rparr>
           \<and> props' \<noteq> props"
proof (cases "secretEncryptionKey props")
  case None
  let ?p = "props\<lparr>deletionPolicy := Some Retain\<rparr>"
  have "?p \<noteq> props"
  proof
    assume "?p = props"
    then have "deletionPolicy ?p = deletionPolicy props"
      by (rule arg_cong)
    with assms show False
      by simp
  qed
  with assms show ?thesis
    by (simp add: new_no_key [OF None])
next
  case (Some k)
  let ?p = "props\<lparr>deletionPolicy := Some Retain,
                  secretEncryptionKey := Some (k\<lparr>resourcePolicy := resourcePolicy k @
                 [keyResourceStatement (stack env) (functionNameToken env) (roleArnToken env)
                    (secretArnLike_of (stack env) (secretName props))]\<rparr>)\<rparr>"
  have "?p \<noteq> props"
  proof
    assume "?p = props"
    then have "deletionPolicy ?p = deletionPolicy props"
      by (rule arg_cong)
    with assms show False
      by simp
  qed
  with assms show ?thesis
    by (simp add: new_with_key [OF Some])
qed

theorem default_deletionPolicy_written_to_props_witness:
  "deletionPolicy ex_props = None
   \<and> (\<exists>props' this.
         new_RsaPrivateKeySecret ex_env ex_props = Inr (props', this)
         \<and> deletionPolicy props' = Some Retain
         \<and> options_deletionPolicy (privateKey this) = Some Retain
         \<and> props'\<lparr>secretEncryptionKey := secretEncryptionKey ex_props\<rparr> =
             ex_props\<lparr>deletionPolicy := Some Retain\<rparr>
         \<and> props' \<noteq> ex_props)"
proof -
  have h: "deletionPolicy ex_props = None"
    by (simp add: ex_props_def)
  show ?thesis
    by (rule conjI [OF h default_deletionPolicy_written_to_props [OF h]])
qed

text \<open>
  C10. On an object constructed without an encryption key, \<open>grantGetSecretValue\<close> adds
  exactly one statement, \<open>secretsmanager:GetSecretValue\<close> on the secret's ARN, to the
  grantee's policy, and leaves the object (its key, role policy and policies) as it was.
\<close>

theorem grant_without_key_one_statement:
  assumes "secretEncryptionKey props = None"
    and "new_RsaPrivateKeySecret env props = Inr (props', this)"
  shows "grantGetSecretValue this grantee =
           (this,
            grantee\<lparr>policy := policy grantee @
              [\<lparr>sid = None, actions = [''secretsmanager:GetSecretValue''],
                resources = [secretArn this], principals = [], conditions = []\<rparr>]\<rparr>)"
proof -
  from assms have "masterKey this = None"
    by (auto simp: new_no_key)
  then show ?thesis
    by (simp add: grant_no_key getSecretValueStatement_eq)
qed

theorem grant_without_key_one_statement_witness:
  "secretEncryptionKey ex_props = None
   \<and> (\<exists>props' this.
         new_RsaPrivateKeySecret ex_env ex_props = Inr (props', this)
         \<and> grantGetSecretValue this ex_grantee =
             (this,
              ex_grantee\<lparr>policy :=
                [\<lparr>sid = None, actions = [''secretsmanager:GetSecretValue''],
                  resources = [''att-SecretArn''], principals = [], conditions = []\<rparr>]\<rparr>))"
proof -
  have h: "secretEncryptionKey ex_props = None"
    by (simp add: ex_props_def)
  note r = new_no_key [OF h, of ex_env]
  from grant_without_key_one_statement [OF h r, of ex_grantee] h r show ?thesis
    by (simp add: ex_env_def ex_grantee_def)
qed

end
